theory Spec2Isabelle
  imports Complex_Main "HOL-Library.Sublist"
begin

section \<open>JavaScript values as the engine receives them\<close>

text \<open>
  The engine (\<^verbatim>\<open>assets/js/engine.js\<close>) is handed records parsed from JSON and reads
  them by free-form property access. A raw value is therefore any JSON value, or
  \<^verbatim>\<open>undefined\<close> (what reading a missing property yields).

  A JavaScript number is NaN, an infinity or a finite double. Finite doubles are
  rationals, so \<open>Fin\<close> ranges over a superset of them; the two zeros are one value
  (the engine compares and floors numbers, which never tells them apart).
  Strings are sequences of code units below 256.
\<close>

datatype error = TypeError

datatype jsnum = NaN | PosInf | NegInf | Fin rat

datatype jsval =
    JUndefined
  | JNull
  | JBool bool
  | JNum jsnum
  | JStr string
  | JArr "jsval list"
  | JObj "(string \<times> jsval) list"

text \<open>Sequencing of computations that may throw: the first exception wins.\<close>

definition bindE :: "error + 'a \<Rightarrow> ('a \<Rightarrow> error + 'b) \<Rightarrow> error + 'b" where
  "bindE m k = (case m of Inl e \<Rightarrow> Inl e | Inr x \<Rightarrow> k x)"

fun mapE :: "('a \<Rightarrow> error + 'b) \<Rightarrow> 'a list \<Rightarrow> error + 'b list" where
  "mapE g [] = Inr []"
| "mapE g (x # xs) = bindE (g x) (\<lambda>y. bindE (mapE g xs) (\<lambda>ys. Inr (y # ys)))"

text \<open>
  Two primitives of the host are not code of this repository: the parser behind
  \<^verbatim>\<open>Number("...")\<close> (ECMA-262 StringToNumber, which rounds to a double) and the
  printer of numbers (Number::toString). They are parameters: every function that
  converts a raw value takes the host \<open>h\<close>, and every theorem below holds for every
  host.
\<close>

record host =
  StringToNumber :: "string \<Rightarrow> jsnum"
  NumberToString :: "jsnum \<Rightarrow> string"

text \<open>
  \<^verbatim>\<open>obj.key\<close>. Reading a property of \<^verbatim>\<open>null\<close> or \<^verbatim>\<open>undefined\<close> throws a TypeError.
  On an object it yields the own property, or \<^verbatim>\<open>undefined\<close>; in the association list
  the first binding of a key is the property's value. On every other value it is
  \<^verbatim>\<open>undefined\<close> for each key the engine reads (\<^verbatim>\<open>name\<close>, the attribute names,
  \<^verbatim>\<open>flavor_profile\<close>, \<^verbatim>\<open>texture\<close>, \<^verbatim>\<open>texture_weight\<close>): none of them is a property
  of a prototype of strings, numbers, booleans, arrays or objects.
\<close>

fun getProp :: "jsval \<Rightarrow> string \<Rightarrow> error + jsval" where
  "getProp JUndefined k = Inl TypeError"
| "getProp JNull k = Inl TypeError"
| "getProp (JObj kvs) k = Inr (case map_of kvs k of None \<Rightarrow> JUndefined | Some v \<Rightarrow> v)"
| "getProp v k = Inr JUndefined"

text \<open>\<^verbatim>\<open>!v\<close> is \<open>\<not> truthy v\<close>: the falsy values are undefined, null, false, 0, NaN and "".\<close>

fun truthy :: "jsval \<Rightarrow> bool" where
  "truthy JUndefined = False"
| "truthy JNull = False"
| "truthy (JBool b) = b"
| "truthy (JNum n) = (n \<noteq> NaN \<and> n \<noteq> Fin 0)"
| "truthy (JStr s) = (s \<noteq> [])"
| "truthy (JArr xs) = True"
| "truthy (JObj kvs) = True"

text \<open>\<^verbatim>\<open>Array.isArray(v)\<close>, \<^verbatim>\<open>typeof v === "string"\<close>, and the elements of an array.\<close>

fun isArray :: "jsval \<Rightarrow> bool" where
  "isArray (JArr xs) = True"
| "isArray v = False"

fun isString :: "jsval \<Rightarrow> bool" where
  "isString (JStr s) = True"
| "isString v = False"

fun elements :: "jsval \<Rightarrow> jsval list" where
  "elements (JArr xs) = xs"
| "elements v = []"

text \<open>
  \<^verbatim>\<open>Array.prototype.join\<close> with the default separator, on the strings of the elements.
\<close>

fun joinE :: "(error + string) list \<Rightarrow> error + string" where
  "joinE [] = Inr []"
| "joinE [r] = r"
| "joinE (r # rs) = bindE r (\<lambda>s. bindE (joinE rs) (\<lambda>t. Inr (s @ '','' @ t)))"

text \<open>
  ToString (ECMA-262 7.1.17). An array prints as the join of its elements, where
  \<^verbatim>\<open>null\<close> and \<^verbatim>\<open>undefined\<close> elements print as the empty string. An object parsed
  from JSON has no callable property of its own, so OrdinaryToPrimitive finds
  \<^verbatim>\<open>Object.prototype.toString\<close> unless the object has an own property \<^verbatim>\<open>toString\<close>
  that hides it; then no method yields a primitive and a TypeError is thrown.
\<close>

fun ToString :: "host \<Rightarrow> jsval \<Rightarrow> error + string" where
  "ToString h JUndefined = Inr ''undefined''"
| "ToString h JNull = Inr ''null''"
| "ToString h (JBool b) = Inr (if b then ''true'' else ''false'')"
| "ToString h (JNum n) = Inr (NumberToString h n)"
| "ToString h (JStr s) = Inr s"
| "ToString h (JArr xs) =
     joinE (map (\<lambda>x. if x = JUndefined \<or> x = JNull then Inr [] else ToString h x) xs)"
| "ToString h (JObj kvs) =
     (if map_of kvs ''toString'' \<noteq> None then Inl TypeError else Inr ''[object Object]'')"

text \<open>
  \<^verbatim>\<open>Number(v)\<close> (ECMA-262 7.1.4). Arrays and objects go through ToPrimitive: an array
  becomes its string, which is then parsed; an object becomes \<^verbatim>\<open>"[object Object]"\<close>,
  which is not a numeric literal, unless an own \<^verbatim>\<open>toString\<close> property makes the
  conversion throw.
\<close>

fun Number :: "host \<Rightarrow> jsval \<Rightarrow> error + jsnum" where
  "Number h JUndefined = Inr NaN"
| "Number h JNull = Inr (Fin 0)"
| "Number h (JBool b) = Inr (Fin (if b then 1 else 0))"
| "Number h (JNum n) = Inr n"
| "Number h (JStr s) = Inr (StringToNumber h s)"
| "Number h (JArr xs) = bindE (ToString h (JArr xs)) (\<lambda>s. Inr (StringToNumber h s))"
| "Number h (JObj kvs) =
     (if map_of kvs ''toString'' \<noteq> None then Inl TypeError else Inr NaN)"

text \<open>
  The expression \<^verbatim>\<open>Number.isNaN(n) ? d : Math.max(lo, Math.min(hi, Math.floor(n)))\<close>
  for integers \<open>d\<close>, \<open>lo\<close>, \<open>hi\<close>; the engine writes it three times (in \<^verbatim>\<open>clamp\<close>
  with \<open>d = lo\<close>, and for the wine's alcohol and aromatic intensity).
  \<^verbatim>\<open>Math.floor\<close> keeps an infinity, \<^verbatim>\<open>Math.min(hi, Infinity)\<close> is \<open>hi\<close> and
  \<^verbatim>\<open>Math.max(lo, -Infinity)\<close> is \<open>lo\<close>, so the value is an integer in every case.
\<close>

fun floorClampOr :: "int \<Rightarrow> int \<Rightarrow> int \<Rightarrow> jsnum \<Rightarrow> int" where
  "floorClampOr d lo hi NaN = d"
| "floorClampOr d lo hi (Fin q) = max lo (min hi \<lfloor>q\<rfloor>)"
| "floorClampOr d lo hi PosInf = max lo hi"
| "floorClampOr d lo hi NegInf = lo"

section \<open>Normalization\<close>

definition BASE_SCORE :: int where
  "BASE_SCORE = 50"

text \<open>\<^verbatim>\<open>clamp(v, min = 0, max = 5)\<close>; the engine always calls it with the defaults.\<close>

definition clamp :: "host \<Rightarrow> jsval \<Rightarrow> int \<Rightarrow> int \<Rightarrow> error + int" where
  "clamp h v lo hi = bindE (Number h v) (\<lambda>n. Inr (floorClampOr lo lo hi n))"

text \<open>The normalized attribute records built by the two object literals.\<close>

record food =
  name :: string
  protein_intensity :: int
  fat_level :: int
  acidity :: int
  sweetness :: int
  spice_heat :: int
  umami :: int

record wine =
  name :: string
  body :: int
  tannin :: int
  acidity :: int
  alcohol :: int
  sweetness :: int
  aromatic_intensity :: int
  flavor_profile :: "jsval list"

definition normalizeFood :: "host \<Rightarrow> jsval \<Rightarrow> error + food" where
  "normalizeFood h raw =
     bindE (getProp raw ''name'') (\<lambda>nm.
     bindE (bindE (getProp raw ''protein_intensity'') (\<lambda>v. clamp h v 0 5)) (\<lambda>pi.
     bindE (bindE (getProp raw ''fat_level'') (\<lambda>v. clamp h v 0 5)) (\<lambda>fl.
     bindE (bindE (getProp raw ''acidity'') (\<lambda>v. clamp h v 0 5)) (\<lambda>ac.
     bindE (bindE (getProp raw ''sweetness'') (\<lambda>v. clamp h v 0 5)) (\<lambda>sw.
     bindE (bindE (getProp raw ''spice_heat'') (\<lambda>v. clamp h v 0 5)) (\<lambda>sh.
     bindE (bindE (getProp raw ''umami'') (\<lambda>v. clamp h v 0 5)) (\<lambda>um.
     Inr \<lparr> food.name = (case nm of JStr s \<Rightarrow> s | _ \<Rightarrow> []),
           protein_intensity = pi,
           fat_level = fl,
           food.acidity = ac,
           food.sweetness = sw,
           spice_heat = sh,
           umami = um \<rparr>)))))))"

definition normalizeWine :: "host \<Rightarrow> jsval \<Rightarrow> error + wine" where
  "normalizeWine h raw =
     bindE (bindE (getProp raw ''alcohol'') (Number h)) (\<lambda>alc.
     bindE (bindE (getProp raw ''aromatic_intensity'') (Number h)) (\<lambda>arom.
     bindE (getProp raw ''name'') (\<lambda>nm.
     bindE (bindE (getProp raw ''body'') (\<lambda>v. clamp h v 0 5)) (\<lambda>bo.
     bindE (bindE (getProp raw ''tannin'') (\<lambda>v. clamp h v 0 5)) (\<lambda>ta.
     bindE (bindE (getProp raw ''acidity'') (\<lambda>v. clamp h v 0 5)) (\<lambda>ac.
     bindE (bindE (getProp raw ''sweetness'') (\<lambda>v. clamp h v 0 5)) (\<lambda>sw.
     bindE (getProp raw ''flavor_profile'') (\<lambda>fp.
     Inr \<lparr> wine.name = (case nm of JStr s \<Rightarrow> s | _ \<Rightarrow> []),
           body = bo,
           tannin = ta,
           wine.acidity = ac,
           alcohol = floorClampOr 3 1 5 alc,
           wine.sweetness = sw,
           aromatic_intensity = floorClampOr 2 1 5 arom,
           flavor_profile = (case fp of JArr xs \<Rightarrow> xs | _ \<Rightarrow> []) \<rparr>))))))))"

section \<open>Rule helpers\<close>

text \<open>Each additive rule returns \<^verbatim>\<open>{ delta, reasoning }\<close>; the sweetness rule
  returns \<^verbatim>\<open>{ cap, reasoning }\<close>, where \<open>None\<close> is \<^verbatim>\<open>null\<close>.\<close>

record rule_outcome =
  delta :: int
  reasoning :: "string list"

record cap_outcome =
  cap :: "int option"
  reasoning :: "string list"

definition applyIntensityHarmony :: "food \<Rightarrow> wine \<Rightarrow> rule_outcome" where
  "applyIntensityHarmony f w =
     (let intensityDiff = \<bar>protein_intensity f - body w\<bar> in
      if intensityDiff \<le> 1 then
        \<lparr> delta = 15, rule_outcome.reasoning = [''Wine body aligns with protein intensity.''] \<rparr>
      else if intensityDiff \<ge> 3 then
        \<lparr> delta = - 15, rule_outcome.reasoning = [''Wine body misaligned with dish intensity.''] \<rparr>
      else \<lparr> delta = 0, rule_outcome.reasoning = [] \<rparr>)"

definition applyFatBalance :: "food \<Rightarrow> wine \<Rightarrow> rule_outcome" where
  "applyFatBalance f w =
     (if fat_level f \<ge> 3 \<and> (wine.acidity w \<ge> 3 \<or> tannin w \<ge> 3) then
        \<lparr> delta = 10, rule_outcome.reasoning = [''Structure balances dish richness.''] \<rparr>
      else if fat_level f \<ge> 4 \<and> wine.acidity w \<le> 1 then
        \<lparr> delta = - 10, rule_outcome.reasoning = [''Wine lacks acidity for rich texture.''] \<rparr>
      else \<lparr> delta = 0, rule_outcome.reasoning = [] \<rparr>)"

definition applySweetnessRule :: "food \<Rightarrow> wine \<Rightarrow> cap_outcome" where
  "applySweetnessRule f w =
     (if wine.sweetness w < food.sweetness f then
        \<lparr> cap = Some 40, cap_outcome.reasoning = [''Wine sweetness lower than dish sweetness.''] \<rparr>
      else \<lparr> cap = None, cap_outcome.reasoning = [] \<rparr>)"

definition applyAcidGap :: "food \<Rightarrow> wine \<Rightarrow> rule_outcome" where
  "applyAcidGap f w =
     (if wine.acidity w + 1 < food.acidity f then
        \<lparr> delta = - 20, rule_outcome.reasoning = [''Wine acidity too low for dish brightness.''] \<rparr>
      else \<lparr> delta = 0, rule_outcome.reasoning = [] \<rparr>)"

text \<open>The three checks of the spice rule run one after the other on the same
  accumulators \<^verbatim>\<open>delta\<close> and \<^verbatim>\<open>reasoning\<close>.\<close>

definition applySpiceLogic :: "food \<Rightarrow> wine \<Rightarrow> rule_outcome" where
  "applySpiceLogic f w =
     (let acc = (0, []);
          acc = (if spice_heat f \<ge> 3 \<and> alcohol w \<ge> 4
                 then (fst acc - 15, snd acc @ [''High alcohol clashes with spice heat.''])
                 else acc);
          acc = (if spice_heat f \<ge> 3 \<and> tannin w \<ge> 4
                 then (fst acc - 10, snd acc @ [''Tannins amplified by spice.''])
                 else acc);
          acc = (if spice_heat f \<ge> 3 \<and> wine.sweetness w \<ge> 1
                 then (fst acc + 8, snd acc @ [''Slight sweetness softens spice.''])
                 else acc)
      in \<lparr> delta = fst acc, rule_outcome.reasoning = snd acc \<rparr>)"

definition applyUmamiSupport :: "food \<Rightarrow> wine \<Rightarrow> rule_outcome" where
  "applyUmamiSupport f w =
     (if umami f \<ge> 3 \<and> wine.acidity w \<ge> 3 then
        \<lparr> delta = 5, rule_outcome.reasoning = [''Acidity supports savory depth.''] \<rparr>
      else \<lparr> delta = 0, rule_outcome.reasoning = [] \<rparr>)"

text \<open>
  \<^verbatim>\<open>String.prototype.toLowerCase\<close> on code units below 256: the letters A to Z and
  the accented capitals U+00C0 to U+00DE (the multiplication sign U+00D7 apart) move
  up by 32; every other code unit stays.
\<close>

definition lowerChar :: "char \<Rightarrow> char" where
  "lowerChar c =
     (let n = (of_char c :: nat) in
      if (65 \<le> n \<and> n \<le> 90) \<or> (192 \<le> n \<and> n \<le> 214) \<or> (216 \<le> n \<and> n \<le> 222)
      then char_of (n + 32) else c)"

definition toLowerCase :: "string \<Rightarrow> string" where
  "toLowerCase s = map lowerChar s"

text \<open>\<^verbatim>\<open>s.includes(t)\<close>: \<open>t\<close> occurs in \<open>s\<close> as a run of consecutive code units.\<close>

fun includesStr :: "string \<Rightarrow> string \<Rightarrow> bool" where
  "includesStr [] t = (t = [])"
| "includesStr (c # cs) t = (prefix t (c # cs) \<or> includesStr cs t)"

text \<open>The callback given to \<^verbatim>\<open>some\<close>: only string entries can match.\<close>

fun flavorMatches :: "string \<Rightarrow> jsval \<Rightarrow> bool" where
  "flavorMatches foodName (JStr flavor) = includesStr foodName (toLowerCase flavor)"
| "flavorMatches foodName v = False"

text \<open>The normalized \<^verbatim>\<open>flavor_profile\<close> is always an array, hence truthy: the first
  conjunct of \<^verbatim>\<open>hasMatch\<close> always passes and is left out.\<close>

definition applyFlavorBridge :: "food \<Rightarrow> wine \<Rightarrow> rule_outcome" where
  "applyFlavorBridge f w =
     (let foodName = toLowerCase (if food.name f \<noteq> [] then food.name f else []);
          hasMatch = (length (flavor_profile w) > 0 \<and>
                      list_ex (flavorMatches foodName) (flavor_profile w))
      in if hasMatch then
           \<lparr> delta = 5, rule_outcome.reasoning = [''Flavor bridge between wine and dish.''] \<rparr>
         else \<lparr> delta = 0, rule_outcome.reasoning = [] \<rparr>)"

section \<open>Single-pair scoring\<close>

text \<open>The result object. Its \<^verbatim>\<open>name\<close> is whatever the expression
  \<^verbatim>\<open>w.name || wine.name || ""\<close> yields, which need not be a string.\<close>

record pairing_result =
  name :: jsval
  score :: int
  reasoning :: "string list"

definition scoreOnePair :: "host \<Rightarrow> jsval \<Rightarrow> jsval \<Rightarrow> error + pairing_result" where
  "scoreOnePair h rawFood rawWine =
     bindE (normalizeFood h rawFood) (\<lambda>f.
     bindE (normalizeWine h rawWine) (\<lambda>w.
     let reasoning = [];
         score = BASE_SCORE;
         intensity = applyIntensityHarmony f w;
         score = score + delta intensity;
         reasoning = reasoning @ rule_outcome.reasoning intensity;
         fat = applyFatBalance f w;
         score = score + delta fat;
         reasoning = reasoning @ rule_outcome.reasoning fat;
         acid = applyAcidGap f w;
         score = score + delta acid;
         reasoning = reasoning @ rule_outcome.reasoning acid;
         spice = applySpiceLogic f w;
         score = score + delta spice;
         reasoning = reasoning @ rule_outcome.reasoning spice;
         umami = applyUmamiSupport f w;
         score = score + delta umami;
         reasoning = reasoning @ rule_outcome.reasoning umami;
         flavor = applyFlavorBridge f w;
         score = score + delta flavor;
         reasoning = reasoning @ rule_outcome.reasoning flavor;
         score = max 0 (min 100 score);
         sweetness = applySweetnessRule f w;
         reasoning = reasoning @ cap_outcome.reasoning sweetness;
         score = (case cap sweetness of None \<Rightarrow> score | Some c \<Rightarrow> min score c)
     in bindE (if wine.name w \<noteq> [] then Inr (JStr (wine.name w)) else getProp rawWine ''name'') (\<lambda>n1.
        Inr \<lparr> pairing_result.name = (if truthy n1 then n1 else JStr []),
              score = score,
              pairing_result.reasoning = reasoning \<rparr>)))"

section \<open>Public API\<close>

text \<open>
  \<^verbatim>\<open>results.sort((a, b) => b.score - a.score)\<close>. \<^verbatim>\<open>Array.prototype.sort\<close> is stable
  (ECMA-262 since ES2019) and the comparator is a consistent order on results, so the
  sorted array is the one a stable insertion sort produces: an element goes in front
  of the first element it does not have to follow.
\<close>

fun insertBy :: "('a \<Rightarrow> 'a \<Rightarrow> int) \<Rightarrow> 'a \<Rightarrow> 'a list \<Rightarrow> 'a list" where
  "insertBy cmp x [] = [x]"
| "insertBy cmp x (y # ys) = (if cmp x y \<le> 0 then x # y # ys else y # insertBy cmp x ys)"

definition sortBy :: "('a \<Rightarrow> 'a \<Rightarrow> int) \<Rightarrow> 'a list \<Rightarrow> 'a list" where
  "sortBy cmp xs = foldr (insertBy cmp) xs []"

definition byScoreDesc :: "pairing_result \<Rightarrow> pairing_result \<Rightarrow> int" where
  "byScoreDesc a b = score b - score a"

definition calculatePairing :: "host \<Rightarrow> jsval \<Rightarrow> jsval \<Rightarrow> error + pairing_result list" where
  "calculatePairing h rawFood wines =
     (if \<not> truthy rawFood \<or> \<not> isArray wines \<or> length (elements wines) = 0 then Inr []
      else bindE (mapE (scoreOnePair h rawFood) (elements wines)) (\<lambda>results.
           let results = sortBy byScoreDesc results
           in Inr (take 3 results)))"

definition scorePairing :: "host \<Rightarrow> jsval \<Rightarrow> jsval \<Rightarrow> error + pairing_result" where
  "scorePairing h rawFood rawWine =
     (if \<not> truthy rawFood \<or> \<not> truthy rawWine
      then Inr \<lparr> pairing_result.name = JStr [], score = 0, pairing_result.reasoning = [] \<rparr>
      else scoreOnePair h rawFood rawWine)"

section \<open>The superseded five-rule engine\<close>

text \<open>
  The second module kept in \<^verbatim>\<open>scripts/test-engine.mjs\<close> has its own constants,
  normalizers and \<^verbatim>\<open>scorePairing\<close>, which returns the bare score. Its \<^verbatim>\<open>clamp\<close> is
  the same function, text for text, as the one above.
\<close>

definition legacy_BASE_SCORE :: int where
  "legacy_BASE_SCORE = 50"

definition SWEETNESS_CAP :: int where
  "SWEETNESS_CAP = 40"

definition ACID_GAP_PENALTY :: int where
  "ACID_GAP_PENALTY = 20"

definition SPICE_ALCOHOL_PENALTY :: int where
  "SPICE_ALCOHOL_PENALTY = 15"

definition SPICE_TANNIN_PENALTY :: int where
  "SPICE_TANNIN_PENALTY = 10"

definition FAT_BALANCE_BONUS :: int where
  "FAT_BALANCE_BONUS = 10"

definition INTENSITY_HARMONY_BONUS :: int where
  "INTENSITY_HARMONY_BONUS = 15"

record legacy_food =
  protein_intensity :: int
  fat_level :: int
  acidity :: int
  sweetness :: int
  spice_heat :: int
  umami :: int
  texture_weight :: int

record legacy_wine =
  body :: int
  tannin :: int
  acidity :: int
  alcohol :: int
  sweetness :: int
  aromatic_intensity :: int

text \<open>\<^verbatim>\<open>a ?? b\<close> takes \<open>b\<close> when \<open>a\<close> is null or undefined; \<open>b\<close> is read only then.\<close>

definition legacy_normalizeFood :: "host \<Rightarrow> jsval \<Rightarrow> error + legacy_food" where
  "legacy_normalizeFood h raw =
     bindE (bindE (getProp raw ''protein_intensity'') (\<lambda>v. clamp h v 0 5)) (\<lambda>pi.
     bindE (bindE (getProp raw ''fat_level'') (\<lambda>v. clamp h v 0 5)) (\<lambda>fl.
     bindE (bindE (getProp raw ''acidity'') (\<lambda>v. clamp h v 0 5)) (\<lambda>ac.
     bindE (bindE (getProp raw ''sweetness'') (\<lambda>v. clamp h v 0 5)) (\<lambda>sw.
     bindE (bindE (getProp raw ''spice_heat'') (\<lambda>v. clamp h v 0 5)) (\<lambda>sh.
     bindE (bindE (getProp raw ''umami'') (\<lambda>v. clamp h v 0 5)) (\<lambda>um.
     bindE (bindE (bindE (getProp raw ''texture'') (\<lambda>t.
                     if t = JUndefined \<or> t = JNull then getProp raw ''texture_weight''
                     else Inr t))
                  (\<lambda>v. clamp h v 0 5)) (\<lambda>tw.
     Inr \<lparr> legacy_food.protein_intensity = pi,
           legacy_food.fat_level = fl,
           legacy_food.acidity = ac,
           legacy_food.sweetness = sw,
           legacy_food.spice_heat = sh,
           legacy_food.umami = um,
           texture_weight = tw \<rparr>)))))))"

definition legacy_normalizeWine :: "host \<Rightarrow> jsval \<Rightarrow> error + legacy_wine" where
  "legacy_normalizeWine h raw =
     bindE (bindE (getProp raw ''alcohol'') (Number h)) (\<lambda>alc.
     bindE (bindE (getProp raw ''aromatic_intensity'') (Number h)) (\<lambda>arom.
     bindE (bindE (getProp raw ''body'') (\<lambda>v. clamp h v 0 5)) (\<lambda>bo.
     bindE (bindE (getProp raw ''tannin'') (\<lambda>v. clamp h v 0 5)) (\<lambda>ta.
     bindE (bindE (getProp raw ''acidity'') (\<lambda>v. clamp h v 0 5)) (\<lambda>ac.
     bindE (bindE (getProp raw ''sweetness'') (\<lambda>v. clamp h v 0 5)) (\<lambda>sw.
     Inr \<lparr> legacy_wine.body = bo,
           legacy_wine.tannin = ta,
           legacy_wine.acidity = ac,
           legacy_wine.alcohol = floorClampOr 3 1 5 alc,
           legacy_wine.sweetness = sw,
           legacy_wine.aromatic_intensity = floorClampOr 2 1 5 arom \<rparr>))))))"

definition legacy_scorePairing :: "host \<Rightarrow> jsval \<Rightarrow> jsval \<Rightarrow> error + int" where
  "legacy_scorePairing h rawFood rawWine =
     bindE (legacy_normalizeFood h rawFood) (\<lambda>f.
     bindE (legacy_normalizeWine h rawWine) (\<lambda>w.
     let score = legacy_BASE_SCORE;
         score = (if legacy_wine.acidity w + 1 < legacy_food.acidity f
                  then score - ACID_GAP_PENALTY else score);
         score = (if legacy_food.spice_heat f \<ge> 3 \<and> legacy_wine.alcohol w \<ge> 4
                  then score - SPICE_ALCOHOL_PENALTY else score);
         score = (if legacy_wine.tannin w \<ge> 4 \<and> legacy_food.spice_heat f \<ge> 3
                  then score - SPICE_TANNIN_PENALTY else score);
         score = (if legacy_food.fat_level f \<ge> 3 \<and>
                     (legacy_wine.acidity w \<ge> 3 \<or> legacy_wine.tannin w \<ge> 3)
                  then score + FAT_BALANCE_BONUS else score);
         bodyDiff = \<bar>legacy_food.protein_intensity f - legacy_wine.body w\<bar>;
         score = (if bodyDiff \<le> 1 then score + INTENSITY_HARMONY_BONUS else score);
         score = max 0 (min 100 score);
         score = (if legacy_wine.sweetness w < legacy_food.sweetness f
                  then min score SWEETNESS_CAP else score)
     in Inr score))"

section \<open>Which raw values convert\<close>

text \<open>
  The raw values on which \<^verbatim>\<open>Number\<close> and ToString return: all but an object with an
  own \<^verbatim>\<open>toString\<close> property and an array holding a value that does not convert.
\<close>

fun coercible :: "jsval \<Rightarrow> bool" where
  "coercible (JObj kvs) = (map_of kvs ''toString'' = None)"
| "coercible (JArr xs) = list_all coercible xs"
| "coercible v = True"

text \<open>The property \<open>k\<close> of the record can be read and converts to a number.\<close>

definition fieldConverts :: "jsval \<Rightarrow> string \<Rightarrow> bool" where
  "fieldConverts raw k = (case getProp raw k of Inl e \<Rightarrow> False | Inr v \<Rightarrow> coercible v)"

definition fieldsConvert :: "string list \<Rightarrow> jsval \<Rightarrow> bool" where
  "fieldsConvert keys raw = list_all (fieldConverts raw) keys"

text \<open>The numeric attributes read by \<^verbatim>\<open>normalizeFood\<close> and by \<^verbatim>\<open>normalizeWine\<close>.\<close>

definition foodFields :: "string list" where
  "foodFields = [''protein_intensity'', ''fat_level'', ''acidity'', ''sweetness'',
                 ''spice_heat'', ''umami'']"

definition wineFields :: "string list" where
  "wineFields = [''alcohol'', ''aromatic_intensity'', ''body'', ''tannin'', ''acidity'',
                 ''sweetness'']"

text \<open>\<^verbatim>\<open>null\<close> and \<^verbatim>\<open>undefined\<close> are the absent arguments.\<close>

definition absent :: "jsval \<Rightarrow> bool" where
  "absent v = (v = JUndefined \<or> v = JNull)"

section \<open>Sample records\<close>

text \<open>
  A host to run the samples on. Its parser takes no string for a numeral, which is
  what the real parser answers on the only strings the samples put in a numeric
  attribute (words such as \<^verbatim>\<open>"dry"\<close>); its printer is never reached, since no sample
  puts an array there.
\<close>

definition sampleHost :: host where
  "sampleHost = \<lparr> StringToNumber = (\<lambda>s. NaN), NumberToString = (\<lambda>n. []) \<rparr>"

text \<open>A number attribute of a record, as JSON gives it.\<close>

definition num :: "int \<Rightarrow> jsval" where
  "num i = JNum (Fin (of_int i))"

text \<open>The steak and the full-bodied red of the worked example:
  only Intensity Harmony fires, the score is 65.\<close>

definition steak :: jsval where
  "steak = JObj [(''name'', JStr ''Ribeye Steak''), (''protein_intensity'', num 5),
     (''fat_level'', num 2), (''acidity'', num 2), (''sweetness'', num 0),
     (''spice_heat'', num 0), (''umami'', num 2)]"

definition boldRed :: jsval where
  "boldRed = JObj [(''name'', JStr ''Cabernet''), (''body'', num 5), (''tannin'', num 2),
     (''acidity'', num 2), (''alcohol'', num 4), (''sweetness'', num 0)]"

text \<open>A hot, slightly sweet dish and a strong, tannic, off-dry wine:
  all three spice checks fire.\<close>

definition curry :: jsval where
  "curry = JObj [(''name'', JStr ''Spicy Thai Curry''), (''protein_intensity'', num 2),
     (''fat_level'', num 3), (''acidity'', num 2), (''sweetness'', num 1),
     (''spice_heat'', num 4), (''umami'', num 3)]"

definition strongWine :: jsval where
  "strongWine = JObj [(''name'', JStr ''Zinfandel''), (''body'', num 4), (''tannin'', num 5),
     (''acidity'', num 2), (''alcohol'', num 5), (''sweetness'', num 2)]"

text \<open>A sweet dish and a dry, mismatched wine: the sum of the deltas is already below
  the cap of 40 before the sweetness rule is looked at.\<close>

definition dessert :: jsval where
  "dessert = JObj [(''name'', JStr ''Creme Brulee''), (''protein_intensity'', num 0),
     (''fat_level'', num 4), (''acidity'', num 4), (''sweetness'', num 3),
     (''spice_heat'', num 0), (''umami'', num 0)]"

definition dryWine :: jsval where
  "dryWine = JObj [(''name'', JStr ''Barolo''), (''body'', num 5), (''tannin'', num 2),
     (''acidity'', num 1), (''alcohol'', num 4), (''sweetness'', num 1)]"

text \<open>Malformed records: attributes given as a fraction, as null, as a boolean, out of
  range, or missing; a name that is a number; a flavor note that is the empty string;
  an attribute that is an object with a \<^verbatim>\<open>toString\<close> entry.\<close>

definition sloppyFood :: jsval where
  "sloppyFood = JObj [(''protein_intensity'', JNum (Fin (7 / 2))), (''fat_level'', JNull),
     (''acidity'', num (- 4)), (''sweetness'', JBool True), (''spice_heat'', JNum PosInf),
     (''umami'', num 3)]"

definition sloppyWine :: jsval where
  "sloppyWine = JObj [(''body'', num 9), (''tannin'', JNum NaN), (''acidity'', num 3),
     (''alcohol'', JObj []), (''sweetness'', JStr ''dry''),
     (''aromatic_intensity'', JUndefined), (''flavor_profile'', JStr ''oak'')]"

definition unnamedWine :: jsval where
  "unnamedWine = JObj [(''name'', num 42)]"

definition blankNoteWine :: jsval where
  "blankNoteWine = JObj [(''name'', JStr ''House White''), (''flavor_profile'', JArr [JStr []])]"

text \<open>Pairs on which only a rule that the five-rule engine lacks fires: Umami Support
  for the first, Flavor Bridge for the second (the note is matched without regard to
  case).\<close>

definition savoryFood :: jsval where
  "savoryFood = JObj [(''name'', JStr ''Mushroom Risotto''), (''umami'', num 3)]"

definition crispWine :: jsval where
  "crispWine = JObj [(''name'', JStr ''Chablis''), (''acidity'', num 3)]"

definition steakNoteWine :: jsval where
  "steakNoteWine = JObj [(''name'', JStr ''Malbec''), (''body'', num 5), (''tannin'', num 2),
     (''acidity'', num 2), (''alcohol'', num 4), (''sweetness'', num 0),
     (''flavor_profile'', JArr [JStr ''Plum'', num 7, JStr ''STEAK''])]"

definition boxedAttribute :: jsval where
  "boxedAttribute = JObj [(''toString'', num 0)]"

definition boxedWine :: jsval where
  "boxedWine = JObj [(''name'', JStr ''Boxed''), (''body'', boxedAttribute)]"

section \<open>Exceptions and conversions\<close>

lemma bindE_simps [simp]: "bindE (Inl e) k = Inl e" "bindE (Inr x) k = k x"
  by (simp_all add: bindE_def)

lemma bindE_Inr_iff: "(bindE m k = Inr y) = (\<exists>x. m = Inr x \<and> k x = Inr y)"
  by (cases m) simp_all

lemma error_all: "(e::error) = TypeError"
  by (cases e) simp

lemma joinE_returns: "(\<exists>s. joinE rs = Inr s) = list_all (\<lambda>r. \<exists>s. r = Inr s) rs"
proof (induction rs rule: joinE.induct)
  case 1
  show ?case by simp
next
  case (2 r)
  show ?case by simp
next
  case (3 r r' rs)
  then show ?case by (cases r) (auto simp: bindE_Inr_iff)
qed

lemma ToString_returns: "(\<exists>s. ToString h v = Inr s) = coercible v"
proof (induction v)
  case (JArr xs)
  have "(\<exists>s. ToString h (JArr xs) = Inr s) =
        list_all (\<lambda>r. \<exists>s. r = Inr s)
          (map (\<lambda>x. if x = JUndefined \<or> x = JNull then Inr [] else ToString h x) xs)"
    by (simp add: joinE_returns)
  also have "\<dots> = list_all coercible xs"
    using JArr by (induction xs) auto
  finally show ?case by simp
qed auto

lemma Number_returns: "(\<exists>n. Number h v = Inr n) = coercible v"
proof (cases v)
  case (JArr xs)
  then show ?thesis
    using ToString_returns [of h "JArr xs"] by (auto simp: bindE_Inr_iff)
qed auto

lemma Number_throws: "(Number h v = Inl TypeError) = (\<not> coercible v)"
  using Number_returns [of h v] by (cases "Number h v") (auto simp: error_all)

section \<open>Normalization returns in-range integers\<close>

lemma floorClampOr_range:
  "lo \<le> hi \<Longrightarrow> lo \<le> d \<Longrightarrow> d \<le> hi \<Longrightarrow>
   lo \<le> floorClampOr d lo hi n \<and> floorClampOr d lo hi n \<le> hi"
  by (cases n) auto

lemma clamp_returns: "(\<exists>i. clamp h v lo hi = Inr i) = coercible v"
  using Number_returns [of h v] by (auto simp: clamp_def bindE_Inr_iff)

lemma clamp_range: "clamp h v lo hi = Inr i \<Longrightarrow> lo \<le> hi \<Longrightarrow> lo \<le> i \<and> i \<le> hi"
  using floorClampOr_range [of lo hi lo] by (auto simp: clamp_def bindE_Inr_iff)

lemma clampProp_returns:
  "(\<exists>i. bindE (getProp raw k) (\<lambda>v. clamp h v lo hi) = Inr i) = fieldConverts raw k"
  using clamp_returns by (cases "getProp raw k") (auto simp: fieldConverts_def)

lemma numberProp_returns:
  "(\<exists>n. bindE (getProp raw k) (Number h) = Inr n) = fieldConverts raw k"
  using Number_returns by (cases "getProp raw k") (auto simp: fieldConverts_def)

lemma clampProp_ex:
  "fieldConverts raw k \<Longrightarrow> \<exists>i. bindE (getProp raw k) (\<lambda>v. clamp h v 0 5) = Inr i"
  by (simp add: clampProp_returns)

lemma numberProp_ex:
  "fieldConverts raw k \<Longrightarrow> \<exists>n. bindE (getProp raw k) (Number h) = Inr n"
  by (simp add: numberProp_returns)

lemma fieldConverts_present: "fieldConverts raw k \<Longrightarrow> \<exists>v. getProp raw k' = Inr v"
  by (cases raw) (auto simp: fieldConverts_def)

lemma normalizeFood_returns: "(\<exists>f. normalizeFood h raw = Inr f) = fieldsConvert foodFields raw"
proof
  assume "\<exists>f. normalizeFood h raw = Inr f"
  then show "fieldsConvert foodFields raw"
    unfolding normalizeFood_def fieldsConvert_def foodFields_def bindE_Inr_iff
    using clampProp_returns [where raw = raw and h = h and lo = 0 and hi = 5, unfolded bindE_Inr_iff]
    by (simp only: list.pred_inject simp_thms) blast
next
  assume "fieldsConvert foodFields raw"
  then have c: "fieldConverts raw ''protein_intensity''" "fieldConverts raw ''fat_level''"
    "fieldConverts raw ''acidity''" "fieldConverts raw ''sweetness''"
    "fieldConverts raw ''spice_heat''" "fieldConverts raw ''umami''"
    by (simp_all add: fieldsConvert_def foodFields_def)
  from c(1) obtain nm where nm: "getProp raw ''name'' = Inr nm"
    using fieldConverts_present by blast
  from c [THEN clampProp_ex [where h = h]] nm show "\<exists>f. normalizeFood h raw = Inr f"
    by (auto simp add: normalizeFood_def)
qed

lemma normalizeWine_returns: "(\<exists>w. normalizeWine h raw = Inr w) = fieldsConvert wineFields raw"
proof
  assume "\<exists>w. normalizeWine h raw = Inr w"
  then show "fieldsConvert wineFields raw"
    unfolding normalizeWine_def fieldsConvert_def wineFields_def bindE_Inr_iff
    using clampProp_returns [where raw = raw and h = h and lo = 0 and hi = 5, unfolded bindE_Inr_iff]
      numberProp_returns [where raw = raw and h = h, unfolded bindE_Inr_iff]
    by (simp only: list.pred_inject simp_thms) blast
next
  assume "fieldsConvert wineFields raw"
  then have c: "fieldConverts raw ''body''" "fieldConverts raw ''tannin''"
    "fieldConverts raw ''acidity''" "fieldConverts raw ''sweetness''"
    and d: "fieldConverts raw ''alcohol''" "fieldConverts raw ''aromatic_intensity''"
    by (simp_all add: fieldsConvert_def wineFields_def)
  from c(1) obtain nm fp where nm: "getProp raw ''name'' = Inr nm"
    "getProp raw ''flavor_profile'' = Inr fp"
    using fieldConverts_present by blast
  from c [THEN clampProp_ex [where h = h]] d [THEN numberProp_ex [where h = h]] nm
  show "\<exists>w. normalizeWine h raw = Inr w"
    by (auto simp add: normalizeWine_def)
qed

lemma normalizeFood_range:
  assumes "normalizeFood h raw = Inr f"
  shows "0 \<le> food.protein_intensity f \<and> food.protein_intensity f \<le> 5"
    and "0 \<le> food.fat_level f \<and> food.fat_level f \<le> 5"
    and "0 \<le> food.acidity f \<and> food.acidity f \<le> 5"
    and "0 \<le> food.sweetness f \<and> food.sweetness f \<le> 5"
    and "0 \<le> food.spice_heat f \<and> food.spice_heat f \<le> 5"
    and "0 \<le> food.umami f \<and> food.umami f \<le> 5"
  using assms clamp_range [of h _ 0 5]
  by (auto simp: normalizeFood_def bindE_Inr_iff)

lemma normalizeWine_range:
  assumes "normalizeWine h raw = Inr w"
  shows "0 \<le> wine.body w \<and> wine.body w \<le> 5"
    and "0 \<le> wine.tannin w \<and> wine.tannin w \<le> 5"
    and "0 \<le> wine.acidity w \<and> wine.acidity w \<le> 5"
    and "0 \<le> wine.sweetness w \<and> wine.sweetness w \<le> 5"
    and "1 \<le> wine.alcohol w \<and> wine.alcohol w \<le> 5"
    and "1 \<le> wine.aromatic_intensity w \<and> wine.aromatic_intensity w \<le> 5"
  using assms clamp_range [of h _ 0 5] floorClampOr_range [of 1 5 3] floorClampOr_range [of 1 5 2]
  by (auto simp: normalizeWine_def bindE_Inr_iff)

lemma normalizeWine_present: "normalizeWine h raw = Inr w \<Longrightarrow> \<exists>v. getProp raw k = Inr v"
  by (cases raw) (auto simp: normalizeWine_def)

section \<open>One pair\<close>

lemma scoreOnePair_unfold:
  assumes f: "normalizeFood h rawFood = Inr f" and w: "normalizeWine h rawWine = Inr w"
  shows "\<exists>nm. scoreOnePair h rawFood rawWine =
    Inr \<lparr> pairing_result.name = nm,
          score = (let s = max 0 (min 100 (BASE_SCORE
                     + delta (applyIntensityHarmony f w) + delta (applyFatBalance f w)
                     + delta (applyAcidGap f w) + delta (applySpiceLogic f w)
                     + delta (applyUmamiSupport f w) + delta (applyFlavorBridge f w)))
                   in case cap (applySweetnessRule f w) of None \<Rightarrow> s | Some c \<Rightarrow> min s c),
          pairing_result.reasoning =
             rule_outcome.reasoning (applyIntensityHarmony f w)
           @ rule_outcome.reasoning (applyFatBalance f w)
           @ rule_outcome.reasoning (applyAcidGap f w)
           @ rule_outcome.reasoning (applySpiceLogic f w)
           @ rule_outcome.reasoning (applyUmamiSupport f w)
           @ rule_outcome.reasoning (applyFlavorBridge f w)
           @ cap_outcome.reasoning (applySweetnessRule f w) \<rparr>"
proof -
  obtain v where "getProp rawWine ''name'' = Inr v"
    using normalizeWine_present [OF w] by blast
  then show ?thesis
    by (simp add: scoreOnePair_def f w Let_def)
qed

lemma scoreOnePair_returns:
  "(\<exists>r. scoreOnePair h rawFood rawWine = Inr r) =
   (fieldsConvert foodFields rawFood \<and> fieldsConvert wineFields rawWine)"
proof
  assume "\<exists>r. scoreOnePair h rawFood rawWine = Inr r"
  then show "fieldsConvert foodFields rawFood \<and> fieldsConvert wineFields rawWine"
    unfolding normalizeFood_returns [of h, symmetric] normalizeWine_returns [of h, symmetric]
    by (auto simp: scoreOnePair_def bindE_Inr_iff)
next
  assume "fieldsConvert foodFields rawFood \<and> fieldsConvert wineFields rawWine"
  then obtain f w where "normalizeFood h rawFood = Inr f" "normalizeWine h rawWine = Inr w"
    unfolding normalizeFood_returns [of h, symmetric] normalizeWine_returns [of h, symmetric] by blast
  from scoreOnePair_unfold [OF this] show "\<exists>r. scoreOnePair h rawFood rawWine = Inr r"
    by blast
qed

lemma scoreOnePair_range:
  assumes "scoreOnePair h rawFood rawWine = Inr r"
  shows "0 \<le> score r \<and> score r \<le> 100"
proof -
  from assms obtain f w where "normalizeFood h rawFood = Inr f" "normalizeWine h rawWine = Inr w"
    by (auto simp: scoreOnePair_def bindE_Inr_iff)
  from scoreOnePair_unfold [OF this] assms show ?thesis
    by (auto simp: Let_def applySweetnessRule_def)
qed

lemma includesStr_empty: "includesStr s []"
  by (induction s) simp_all

section \<open>Ranking\<close>

text \<open>The insertion sort under the engine's comparator is the library's stable sort
  on the negated score.\<close>

lemma insertBy_byScoreDesc:
  "insertBy byScoreDesc x ys = insort_key (\<lambda>r. - score r) x ys"
  by (induction ys) (simp_all add: byScoreDesc_def)

lemma sortBy_byScoreDesc: "sortBy byScoreDesc xs = sort_key (\<lambda>r. - score r) xs"
proof -
  have "insertBy byScoreDesc = insort_key (\<lambda>r. - score r)"
    by (intro ext) (rule insertBy_byScoreDesc)
  then show ?thesis by (simp add: sortBy_def sort_key_def)
qed

lemma sortBy_descending: "sorted_wrt (\<lambda>a b. score a \<ge> score b) (sortBy byScoreDesc xs)"
proof -
  have "sorted (map (\<lambda>r. - score r) (sortBy byScoreDesc xs))"
    by (simp add: sortBy_byScoreDesc)
  then show ?thesis
    by (simp add: sorted_map sorted_wrt_iff_nth_less)
qed

lemma sortBy_stable:
  "filter (\<lambda>r. score r = k) (sortBy byScoreDesc xs) = filter (\<lambda>r. score r = k) xs"
proof -
  have "filter (\<lambda>r. - score r = - k) (sort_key (\<lambda>r. - score r) xs) =
        filter (\<lambda>r. - score r = - k) xs"
    by (rule sort_key_stable)
  then show ?thesis by (simp add: sortBy_byScoreDesc)
qed

lemma mapE_returns: "(mapE g xs = Inr ys) = list_all2 (\<lambda>x y. g x = Inr y) xs ys"
proof (induction xs arbitrary: ys)
  case Nil
  show ?case by auto
next
  case (Cons x xs)
  show ?case by (cases ys) (auto simp: bindE_Inr_iff Cons)
qed

lemma mapE_returns_iff: "(\<exists>ys. mapE g xs = Inr ys) = list_all (\<lambda>x. \<exists>y. g x = Inr y) xs"
  by (induction xs) (auto simp: bindE_Inr_iff)

lemma top3_properties:
  "length (take 3 (sortBy byScoreDesc xs)) \<le> 3 \<and>
   sorted_wrt (\<lambda>a b. score a \<ge> score b) (take 3 (sortBy byScoreDesc xs)) \<and>
   prefix (filter (\<lambda>r. score r = k) (take 3 (sortBy byScoreDesc xs)))
          (filter (\<lambda>r. score r = k) xs)"
proof -
  have "prefix (filter (\<lambda>r. score r = k) (take 3 (sortBy byScoreDesc xs)))
               (filter (\<lambda>r. score r = k) (sortBy byScoreDesc xs))"
    by (intro filter_mono_prefix take_is_prefix)
  then show ?thesis
    using sortBy_descending [of xs] by (simp add: sortBy_stable sorted_wrt_take)
qed

section \<open>Running the samples\<close>

lemmas sample_defs = sampleHost_def steak_def boldRed_def curry_def strongWine_def dessert_def
  dryWine_def sloppyFood_def sloppyWine_def unnamedWine_def blankNoteWine_def boxedAttribute_def
  boxedWine_def savoryFood_def crispWine_def steakNoteWine_def num_def

lemmas rule_defs = applyIntensityHarmony_def applyFatBalance_def applyAcidGap_def
  applySpiceLogic_def applyUmamiSupport_def applyFlavorBridge_def applySweetnessRule_def
  toLowerCase_def lowerChar_def char_of_eq_iff

lemmas engine_defs = scorePairing_def scoreOnePair_def normalizeFood_def normalizeWine_def
  clamp_def BASE_SCORE_def Let_def

lemmas legacy_defs = legacy_scorePairing_def legacy_normalizeFood_def legacy_normalizeWine_def
  clamp_def legacy_BASE_SCORE_def SWEETNESS_CAP_def ACID_GAP_PENALTY_def
  SPICE_ALCOHOL_PENALTY_def SPICE_TANNIN_PENALTY_def FAT_BALANCE_BONUS_def
  INTENSITY_HARMONY_BONUS_def Let_def

lemma steak_boldRed:
  "scorePairing h steak boldRed =
     Inr \<lparr> pairing_result.name = JStr ''Cabernet'', score = 65,
           pairing_result.reasoning = [''Wine body aligns with protein intensity.''] \<rparr>"
  by (simp add: sample_defs engine_defs rule_defs)

lemma steak_dryWine:
  "scorePairing h steak dryWine =
     Inr \<lparr> pairing_result.name = JStr ''Barolo'', score = 65,
           pairing_result.reasoning = [''Wine body aligns with protein intensity.''] \<rparr>"
  by (simp add: sample_defs engine_defs rule_defs)

lemma steak_strongWine:
  "scorePairing h steak strongWine =
     Inr \<lparr> pairing_result.name = JStr ''Zinfandel'', score = 65,
           pairing_result.reasoning = [''Wine body aligns with protein intensity.''] \<rparr>"
  by (simp add: sample_defs engine_defs rule_defs)

lemma steak_unnamedWine:
  "scorePairing h steak unnamedWine =
     Inr \<lparr> pairing_result.name = JNum (Fin 42), score = 15,
           pairing_result.reasoning = [''Wine body misaligned with dish intensity.'',
             ''Wine acidity too low for dish brightness.''] \<rparr>"
  by (simp add: sample_defs engine_defs rule_defs)

lemma steak_steakNoteWine:
  "scorePairing h steak steakNoteWine =
     Inr \<lparr> pairing_result.name = JStr ''Malbec'', score = 70,
           pairing_result.reasoning = [''Wine body aligns with protein intensity.'',
              ''Flavor bridge between wine and dish.''] \<rparr>"
  by (simp add: sample_defs engine_defs rule_defs)

lemma steak_steakNoteWine_legacy: "legacy_scorePairing h steak steakNoteWine = Inr 65"
  by (simp add: sample_defs legacy_defs)

lemma savoryFood_crispWine:
  "scorePairing h savoryFood crispWine =
     Inr \<lparr> pairing_result.name = JStr ''Chablis'', score = 70,
           pairing_result.reasoning = [''Wine body aligns with protein intensity.'',
              ''Acidity supports savory depth.''] \<rparr>"
  by (simp add: sample_defs engine_defs rule_defs)

lemma savoryFood_crispWine_legacy: "legacy_scorePairing h savoryFood crispWine = Inr 65"
  by (simp add: sample_defs legacy_defs)

lemma dessert_dryWine:
  "scorePairing h dessert dryWine =
     Inr \<lparr> pairing_result.name = JStr ''Barolo'', score = 5,
           pairing_result.reasoning = [''Wine body misaligned with dish intensity.'',
             ''Wine lacks acidity for rich texture.'',
             ''Wine acidity too low for dish brightness.'',
             ''Wine sweetness lower than dish sweetness.''] \<rparr>"
  by (simp add: sample_defs engine_defs rule_defs)

lemma sloppyFood_sloppyWine:
  "scorePairing sampleHost sloppyFood sloppyWine =
     Inr \<lparr> pairing_result.name = JStr [], score = 40,
           pairing_result.reasoning = [''Acidity supports savory depth.'',
                                       ''Wine sweetness lower than dish sweetness.''] \<rparr>"
  by (simp add: sample_defs engine_defs rule_defs)

lemma normalize_dessert:
  "normalizeFood h dessert =
     Inr \<lparr> food.name = ''Creme Brulee'', food.protein_intensity = 0, food.fat_level = 4,
           food.acidity = 4, food.sweetness = 3, food.spice_heat = 0, food.umami = 0 \<rparr>"
  by (simp add: sample_defs engine_defs)

lemma normalize_dryWine:
  "normalizeWine h dryWine =
     Inr \<lparr> wine.name = ''Barolo'', wine.body = 5, wine.tannin = 2, wine.acidity = 1,
           wine.alcohol = 4, wine.sweetness = 1, wine.aromatic_intensity = 2,
           flavor_profile = [] \<rparr>"
  by (simp add: sample_defs engine_defs)

lemma normalize_sloppyFood:
  "normalizeFood sampleHost sloppyFood =
     Inr \<lparr> food.name = [], food.protein_intensity = 3, food.fat_level = 0,
           food.acidity = 0, food.sweetness = 1, food.spice_heat = 5, food.umami = 3 \<rparr>"
  by (simp add: sample_defs engine_defs floor_eq_iff)

lemma normalize_sloppyWine:
  "normalizeWine sampleHost sloppyWine =
     Inr \<lparr> wine.name = [], wine.body = 5, wine.tannin = 0, wine.acidity = 3,
           wine.alcohol = 3, wine.sweetness = 0, wine.aromatic_intensity = 2,
           flavor_profile = [] \<rparr>"
  by (simp add: sample_defs engine_defs)

lemma normalize_blankNoteWine:
  "normalizeWine h blankNoteWine =
     Inr \<lparr> wine.name = ''House White'', wine.body = 0, wine.tannin = 0, wine.acidity = 0,
           wine.alcohol = 3, wine.sweetness = 0, wine.aromatic_intensity = 2,
           flavor_profile = [JStr []] \<rparr>"
  by (simp add: sample_defs engine_defs)

section \<open>The score of a pair\<close>

text \<open>
  Claim C1, as the engine has it. Whatever the two raw values are, a score that
  \<^verbatim>\<open>scorePairing\<close> returns is an integer (the type of \<open>score\<close>) from 0 to 100. It
  returns exactly when an argument is falsy (the sentinel, score 0) or every numeric
  attribute of both records converts; otherwise \<^verbatim>\<open>Number\<close> throws on an attribute and
  no score comes back.
\<close>

theorem scorePairing_score_range:
  "(\<forall>r. scorePairing h rawFood rawWine = Inr r \<longrightarrow> 0 \<le> score r \<and> score r \<le> 100) \<and>
   ((\<exists>r. scorePairing h rawFood rawWine = Inr r) =
    (\<not> truthy rawFood \<or> \<not> truthy rawWine \<or>
     fieldsConvert foodFields rawFood \<and> fieldsConvert wineFields rawWine))"
  using scoreOnePair_range [of h rawFood rawWine] scoreOnePair_returns [of h rawFood rawWine]
  by (auto simp: scorePairing_def)

theorem scorePairing_score_range_witness:
  "truthy sloppyFood \<and> truthy sloppyWine \<and>
   fieldsConvert foodFields sloppyFood \<and> fieldsConvert wineFields sloppyWine \<and>
   (\<exists>r. scorePairing sampleHost sloppyFood sloppyWine = Inr r \<and>
        score r = 40 \<and> 0 \<le> score r \<and> score r \<le> 100)"
proof -
  have c: "fieldsConvert foodFields sloppyFood \<and> fieldsConvert wineFields sloppyWine"
    by (simp add: fieldsConvert_def fieldConverts_def foodFields_def wineFields_def sample_defs)
  have t: "truthy sloppyFood \<and> truthy sloppyWine"
    by (simp add: sample_defs)
  from scorePairing_score_range [of sampleHost sloppyFood sloppyWine] c t sloppyFood_sloppyWine
  show ?thesis by simp
qed

text \<open>Claim C1 as written, for arbitrary malformed attributes, fails on the wine whose
  body is an object with a \<^verbatim>\<open>toString\<close> entry: the call throws.\<close>

theorem scorePairing_throws:
  "scorePairing sampleHost steak boxedWine = Inl TypeError"
  by (simp add: sample_defs engine_defs)

text \<open>
  Claim C2. For arguments that pass the guard (every record does) and normalize to
  \<open>f\<close> and \<open>w\<close> with the wine less sweet than the dish, \<^verbatim>\<open>scorePairing\<close> returns a
  score of at most 40 and a reasoning list that holds the sweetness message. The
  score is the minimum of 40 and the sum already clamped into 0..100, so the cap
  never raises it.
\<close>

theorem sweetness_cap:
  assumes "truthy rawFood" and "truthy rawWine"
    and f: "normalizeFood h rawFood = Inr f" and w: "normalizeWine h rawWine = Inr w"
    and lt: "wine.sweetness w < food.sweetness f"
  shows "\<exists>r. scorePairing h rawFood rawWine = Inr r \<and> score r \<le> 40 \<and>
           ''Wine sweetness lower than dish sweetness.'' \<in> set (pairing_result.reasoning r) \<and>
           score r = min (max 0 (min 100 (BASE_SCORE
                     + delta (applyIntensityHarmony f w) + delta (applyFatBalance f w)
                     + delta (applyAcidGap f w) + delta (applySpiceLogic f w)
                     + delta (applyUmamiSupport f w) + delta (applyFlavorBridge f w)))) 40 \<and>
           score r \<le> max 0 (min 100 (BASE_SCORE
                     + delta (applyIntensityHarmony f w) + delta (applyFatBalance f w)
                     + delta (applyAcidGap f w) + delta (applySpiceLogic f w)
                     + delta (applyUmamiSupport f w) + delta (applyFlavorBridge f w)))"
  using scoreOnePair_unfold [OF f w] assms(1,2) lt
  by (auto simp: scorePairing_def Let_def applySweetnessRule_def)

theorem sweetness_cap_witness:
  "truthy sloppyFood \<and> truthy sloppyWine \<and>
   normalizeFood sampleHost sloppyFood =
     Inr \<lparr> food.name = [], food.protein_intensity = 3, food.fat_level = 0,
           food.acidity = 0, food.sweetness = 1, food.spice_heat = 5, food.umami = 3 \<rparr> \<and>
   normalizeWine sampleHost sloppyWine =
     Inr \<lparr> wine.name = [], wine.body = 5, wine.tannin = 0, wine.acidity = 3,
           wine.alcohol = 3, wine.sweetness = 0, wine.aromatic_intensity = 2,
           flavor_profile = [] \<rparr> \<and>
   (\<exists>r. scorePairing sampleHost sloppyFood sloppyWine = Inr r \<and> score r = 40 \<and>
        ''Wine sweetness lower than dish sweetness.'' \<in> set (pairing_result.reasoning r))"
proof -
  have t: "truthy sloppyFood" "truthy sloppyWine"
    by (simp_all add: sample_defs)
  from sweetness_cap [OF t normalize_sloppyFood normalize_sloppyWine]
  have "\<exists>r. scorePairing sampleHost sloppyFood sloppyWine = Inr r \<and> score r \<le> 40 \<and>
           ''Wine sweetness lower than dish sweetness.'' \<in> set (pairing_result.reasoning r)"
    by simp blast
  with t normalize_sloppyFood normalize_sloppyWine sloppyFood_sloppyWine
  show ?thesis by auto
qed

section \<open>The top three\<close>

text \<open>
  Claim C3. A list returned by \<^verbatim>\<open>calculatePairing\<close> has at most 3 results, in
  descending order of score, and ties keep the input order: with \<open>scored\<close> the results
  of the wines in input order, the returned results of any one score \<open>k\<close> are the
  first ones of that score in \<open>scored\<close>, in the same order. The call returns a list for
  every food and every array of wines whose numeric attributes convert (numbers,
  strings, booleans, null and missing attributes all do), and whenever the guard
  answers the empty list; it returns in no other case.
\<close>

theorem calculatePairing_top3_sorted_stable:
  "(\<forall>rs. calculatePairing h rawFood wines = Inr rs \<longrightarrow>
      length rs \<le> 3 \<and>
      sorted_wrt (\<lambda>a b. score a \<ge> score b) rs \<and>
      (\<forall>ws scored k.
         wines = JArr ws \<and> list_all2 (\<lambda>w r. scoreOnePair h rawFood w = Inr r) ws scored \<longrightarrow>
         prefix (filter (\<lambda>r. score r = k) rs) (filter (\<lambda>r. score r = k) scored))) \<and>
   ((\<exists>rs. calculatePairing h rawFood wines = Inr rs) =
    (\<not> truthy rawFood \<or> \<not> isArray wines \<or> wines = JArr [] \<or>
     (\<exists>ws. wines = JArr ws \<and> fieldsConvert foodFields rawFood \<and>
           list_all (fieldsConvert wineFields) ws)))"
proof (intro conjI allI impI)
  fix rs
  assume r: "calculatePairing h rawFood wines = Inr rs"
  show "length rs \<le> 3"
    using r top3_properties
    by (auto simp: calculatePairing_def bindE_Inr_iff Let_def split: if_splits)
  show "sorted_wrt (\<lambda>a b. score a \<ge> score b) rs"
    using r top3_properties
    by (auto simp: calculatePairing_def bindE_Inr_iff Let_def split: if_splits)
  fix ws scored k
  assume "wines = JArr ws \<and> list_all2 (\<lambda>w r. scoreOnePair h rawFood w = Inr r) ws scored"
  then have w: "wines = JArr ws" and s: "mapE (scoreOnePair h rawFood) ws = Inr scored"
    by (simp_all add: mapE_returns)
  show "prefix (filter (\<lambda>r. score r = k) rs) (filter (\<lambda>r. score r = k) scored)"
    using r w s top3_properties [of scored k]
    by (auto simp: calculatePairing_def Let_def split: if_splits)
next
  show "(\<exists>rs. calculatePairing h rawFood wines = Inr rs) =
    (\<not> truthy rawFood \<or> \<not> isArray wines \<or> wines = JArr [] \<or>
     (\<exists>ws. wines = JArr ws \<and> fieldsConvert foodFields rawFood \<and>
           list_all (fieldsConvert wineFields) ws))"
  proof (cases wines)
    case (JArr ws)
    have "(\<exists>ys. mapE (scoreOnePair h rawFood) ws = Inr ys) =
          (ws = [] \<or> fieldsConvert foodFields rawFood \<and> list_all (fieldsConvert wineFields) ws)"
      unfolding mapE_returns_iff scoreOnePair_returns by (induction ws) auto
    then show ?thesis
      using JArr by (auto simp: calculatePairing_def bindE_Inr_iff Let_def)
  qed (simp_all add: calculatePairing_def)
qed

text \<open>Five wines for the steak: a low score first, three tied at 65, the best one
  last. The best comes first, then the first two of the tie in their input order.\<close>

theorem calculatePairing_top3_sorted_stable_witness:
  "calculatePairing sampleHost steak
      (JArr [unnamedWine, dryWine, boldRed, strongWine, steakNoteWine]) =
     Inr [\<lparr> pairing_result.name = JStr ''Malbec'', score = 70,
             pairing_result.reasoning = [''Wine body aligns with protein intensity.'',
               ''Flavor bridge between wine and dish.''] \<rparr>,
          \<lparr> pairing_result.name = JStr ''Barolo'', score = 65,
             pairing_result.reasoning = [''Wine body aligns with protein intensity.''] \<rparr>,
          \<lparr> pairing_result.name = JStr ''Cabernet'', score = 65,
             pairing_result.reasoning = [''Wine body aligns with protein intensity.''] \<rparr>] \<and>
   list_all2 (\<lambda>w r. scoreOnePair sampleHost steak w = Inr r)
     [unnamedWine, dryWine, boldRed, strongWine, steakNoteWine]
     [\<lparr> pairing_result.name = JNum (Fin 42), score = 15,
        pairing_result.reasoning = [''Wine body misaligned with dish intensity.'',
          ''Wine acidity too low for dish brightness.''] \<rparr>,
      \<lparr> pairing_result.name = JStr ''Barolo'', score = 65,
        pairing_result.reasoning = [''Wine body aligns with protein intensity.''] \<rparr>,
      \<lparr> pairing_result.name = JStr ''Cabernet'', score = 65,
        pairing_result.reasoning = [''Wine body aligns with protein intensity.''] \<rparr>,
      \<lparr> pairing_result.name = JStr ''Zinfandel'', score = 65,
        pairing_result.reasoning = [''Wine body aligns with protein intensity.''] \<rparr>,
      \<lparr> pairing_result.name = JStr ''Malbec'', score = 70,
        pairing_result.reasoning = [''Wine body aligns with protein intensity.'',
          ''Flavor bridge between wine and dish.''] \<rparr>] \<and>
   (\<exists>rs. calculatePairing sampleHost steak
            (JArr [unnamedWine, dryWine, boldRed, strongWine, steakNoteWine]) = Inr rs \<and>
         length rs \<le> 3 \<and> sorted_wrt (\<lambda>a b. score a \<ge> score b) rs \<and>
         map pairing_result.name (filter (\<lambda>r. score r = 65) rs) =
           [JStr ''Barolo'', JStr ''Cabernet''])"
proof -
  have one: "scoreOnePair h steak w = scorePairing h steak w" if "truthy w" for h w
    using that by (simp add: scorePairing_def steak_def)
  have t: "truthy unnamedWine" "truthy dryWine" "truthy boldRed" "truthy strongWine"
    "truthy steakNoteWine" "truthy steak"
    by (simp_all add: sample_defs)
  have scored: "list_all2 (\<lambda>w r. scoreOnePair sampleHost steak w = Inr r)
     [unnamedWine, dryWine, boldRed, strongWine, steakNoteWine]
     [\<lparr> pairing_result.name = JNum (Fin 42), score = 15,
        pairing_result.reasoning = [''Wine body misaligned with dish intensity.'',
          ''Wine acidity too low for dish brightness.''] \<rparr>,
      \<lparr> pairing_result.name = JStr ''Barolo'', score = 65,
        pairing_result.reasoning = [''Wine body aligns with protein intensity.''] \<rparr>,
      \<lparr> pairing_result.name = JStr ''Cabernet'', score = 65,
        pairing_result.reasoning = [''Wine body aligns with protein intensity.''] \<rparr>,
      \<lparr> pairing_result.name = JStr ''Zinfandel'', score = 65,
        pairing_result.reasoning = [''Wine body aligns with protein intensity.''] \<rparr>,
      \<lparr> pairing_result.name = JStr ''Malbec'', score = 70,
        pairing_result.reasoning = [''Wine body aligns with protein intensity.'',
          ''Flavor bridge between wine and dish.''] \<rparr>]"
    by (simp add: one t steak_unnamedWine steak_dryWine steak_boldRed steak_strongWine
        steak_steakNoteWine)
  then have m: "mapE (scoreOnePair sampleHost steak)
     [unnamedWine, dryWine, boldRed, strongWine, steakNoteWine] = 
     Inr [\<lparr> pairing_result.name = JNum (Fin 42), score = 15,
        pairing_result.reasoning = [''Wine body misaligned with dish intensity.'',
          ''Wine acidity too low for dish brightness.''] \<rparr>,
      \<lparr> pairing_result.name = JStr ''Barolo'', score = 65,
        pairing_result.reasoning = [''Wine body aligns with protein intensity.''] \<rparr>,
      \<lparr> pairing_result.name = JStr ''Cabernet'', score = 65,
        pairing_result.reasoning = [''Wine body aligns with protein intensity.''] \<rparr>,
      \<lparr> pairing_result.name = JStr ''Zinfandel'', score = 65,
        pairing_result.reasoning = [''Wine body aligns with protein intensity.''] \<rparr>,
      \<lparr> pairing_result.name = JStr ''Malbec'', score = 70,
        pairing_result.reasoning = [''Wine body aligns with protein intensity.'',
          ''Flavor bridge between wine and dish.''] \<rparr>]"
    by (simp only: mapE_returns)
  have top: "calculatePairing sampleHost steak
      (JArr [unnamedWine, dryWine, boldRed, strongWine, steakNoteWine]) =
     Inr [\<lparr> pairing_result.name = JStr ''Malbec'', score = 70,
             pairing_result.reasoning = [''Wine body aligns with protein intensity.'',
               ''Flavor bridge between wine and dish.''] \<rparr>,
          \<lparr> pairing_result.name = JStr ''Barolo'', score = 65,
             pairing_result.reasoning = [''Wine body aligns with protein intensity.''] \<rparr>,
          \<lparr> pairing_result.name = JStr ''Cabernet'', score = 65,
             pairing_result.reasoning = [''Wine body aligns with protein intensity.''] \<rparr>]"
    unfolding calculatePairing_def elements.simps m
    by (simp add: t sortBy_def byScoreDesc_def)
  from calculatePairing_top3_sorted_stable
         [where h = sampleHost and rawFood = steak
            and wines = "JArr [unnamedWine, dryWine, boldRed, strongWine, steakNoteWine]"]
       top scored
  show ?thesis by simp
qed

section \<open>Absent arguments\<close>

text \<open>
  Claim C4. \<^verbatim>\<open>calculatePairing\<close> returns the empty list, and does not throw, when the
  food is absent, when the wines are not an array and when the array is empty;
  \<^verbatim>\<open>scorePairing\<close> returns the sentinel with the empty name, score 0 and no reasoning
  when either argument is absent.
\<close>

theorem absent_arguments_give_sentinels:
  "(absent rawFood \<or> \<not> isArray wines \<or> wines = JArr [] \<longrightarrow>
      calculatePairing h rawFood wines = Inr []) \<and>
   (absent rawFood \<or> absent rawWine \<longrightarrow>
      scorePairing h rawFood rawWine =
        Inr \<lparr> pairing_result.name = JStr [], score = 0, pairing_result.reasoning = [] \<rparr>)"
proof -
  have "\<not> truthy v" if "absent v" for v
    using that by (auto simp: absent_def)
  then show ?thesis
    by (cases wines) (auto simp: calculatePairing_def scorePairing_def)
qed

theorem absent_arguments_give_sentinels_witness:
  "absent JNull \<and> absent JUndefined \<and> \<not> isArray (JStr ''not-an-array'') \<and>
   calculatePairing sampleHost JNull (JArr [boldRed]) = Inr [] \<and>
   calculatePairing sampleHost steak (JStr ''not-an-array'') = Inr [] \<and>
   calculatePairing sampleHost steak (JArr []) = Inr [] \<and>
   scorePairing sampleHost JUndefined boldRed =
     Inr \<lparr> pairing_result.name = JStr [], score = 0, pairing_result.reasoning = [] \<rparr> \<and>
   scorePairing sampleHost steak JNull =
     Inr \<lparr> pairing_result.name = JStr [], score = 0, pairing_result.reasoning = [] \<rparr>"
  using
    absent_arguments_give_sentinels
      [where h = sampleHost and rawFood = JNull and wines = "JArr [boldRed]" and rawWine = JNull]
    absent_arguments_give_sentinels
      [where h = sampleHost and rawFood = steak and wines = "JStr ''not-an-array''"
         and rawWine = JNull]
    absent_arguments_give_sentinels
      [where h = sampleHost and rawFood = steak and wines = "JArr []" and rawWine = JNull]
    absent_arguments_give_sentinels
      [where h = sampleHost and rawFood = JUndefined and wines = "JArr []" and rawWine = boldRed]
  by (simp add: absent_def)

section \<open>Normalization\<close>

text \<open>
  Claim C5, as the engine has it. \<^verbatim>\<open>clamp\<close> and the two normalizers return exactly on
  the raw values that \<^verbatim>\<open>Number\<close> converts without throwing: everything but an object
  with an own \<^verbatim>\<open>toString\<close> property and an array that holds such a value. Where they
  return: \<^verbatim>\<open>clamp(v, lo, hi)\<close> is \<open>lo\<close> when \<^verbatim>\<open>Number(v)\<close> is NaN and otherwise the floor
  of the number clamped into \<open>lo..hi\<close> (\<open>hi\<close> for Infinity, \<open>lo\<close> for -Infinity); every
  normalized food attribute and the wine's body, tannin, acidity and sweetness are
  integers from 0 to 5; the wine's alcohol and aromatic intensity are integers from 1
  to 5, and are 3 and 2 when the raw value converts to NaN.
\<close>

theorem normalization_in_range:
  "((\<exists>n. Number h v = Inr n) = coercible v) \<and>
   ((\<exists>i. clamp h v lo hi = Inr i) = coercible v) \<and>
   (\<forall>n. Number h v = Inr n \<longrightarrow>
        clamp h v lo hi =
          Inr (case n of NaN \<Rightarrow> lo | PosInf \<Rightarrow> max lo hi | NegInf \<Rightarrow> lo
               | Fin q \<Rightarrow> max lo (min hi \<lfloor>q\<rfloor>))) \<and>
   (\<forall>i. clamp h v lo hi = Inr i \<and> lo \<le> hi \<longrightarrow> lo \<le> i \<and> i \<le> hi) \<and>
   ((\<exists>f. normalizeFood h rawFood = Inr f) = fieldsConvert foodFields rawFood) \<and>
   (\<forall>f. normalizeFood h rawFood = Inr f \<longrightarrow>
        0 \<le> food.protein_intensity f \<and> food.protein_intensity f \<le> 5 \<and>
        0 \<le> food.fat_level f \<and> food.fat_level f \<le> 5 \<and>
        0 \<le> food.acidity f \<and> food.acidity f \<le> 5 \<and>
        0 \<le> food.sweetness f \<and> food.sweetness f \<le> 5 \<and>
        0 \<le> food.spice_heat f \<and> food.spice_heat f \<le> 5 \<and>
        0 \<le> food.umami f \<and> food.umami f \<le> 5) \<and>
   ((\<exists>w. normalizeWine h rawWine = Inr w) = fieldsConvert wineFields rawWine) \<and>
   (\<forall>w. normalizeWine h rawWine = Inr w \<longrightarrow>
        0 \<le> wine.body w \<and> wine.body w \<le> 5 \<and>
        0 \<le> wine.tannin w \<and> wine.tannin w \<le> 5 \<and>
        0 \<le> wine.acidity w \<and> wine.acidity w \<le> 5 \<and>
        0 \<le> wine.sweetness w \<and> wine.sweetness w \<le> 5 \<and>
        1 \<le> wine.alcohol w \<and> wine.alcohol w \<le> 5 \<and>
        1 \<le> wine.aromatic_intensity w \<and> wine.aromatic_intensity w \<le> 5 \<and>
        (\<exists>a n. getProp rawWine ''alcohol'' = Inr a \<and> Number h a = Inr n \<and>
           wine.alcohol w = (case n of NaN \<Rightarrow> 3 | PosInf \<Rightarrow> 5 | NegInf \<Rightarrow> 1
                             | Fin q \<Rightarrow> max 1 (min 5 \<lfloor>q\<rfloor>))) \<and>
        (\<exists>a n. getProp rawWine ''aromatic_intensity'' = Inr a \<and> Number h a = Inr n \<and>
           wine.aromatic_intensity w = (case n of NaN \<Rightarrow> 2 | PosInf \<Rightarrow> 5 | NegInf \<Rightarrow> 1
                             | Fin q \<Rightarrow> max 1 (min 5 \<lfloor>q\<rfloor>))))"
proof (intro conjI allI impI)
  show "(\<exists>n. Number h v = Inr n) = coercible v"
    by (rule Number_returns)
  show "(\<exists>i. clamp h v lo hi = Inr i) = coercible v"
    by (rule clamp_returns)
  show "clamp h v lo hi =
          Inr (case n of NaN \<Rightarrow> lo | PosInf \<Rightarrow> max lo hi | NegInf \<Rightarrow> lo
               | Fin q \<Rightarrow> max lo (min hi \<lfloor>q\<rfloor>))"
    if "Number h v = Inr n" for n
    using that by (cases n) (simp_all add: clamp_def)
  show "lo \<le> i" "i \<le> hi" if "clamp h v lo hi = Inr i \<and> lo \<le> hi" for i
    using that clamp_range [of h v lo hi i] by simp_all
  show "(\<exists>f. normalizeFood h rawFood = Inr f) = fieldsConvert foodFields rawFood"
    by (rule normalizeFood_returns)
  show "(\<exists>w. normalizeWine h rawWine = Inr w) = fieldsConvert wineFields rawWine"
    by (rule normalizeWine_returns)
next
  fix f
  assume "normalizeFood h rawFood = Inr f"
  note r = normalizeFood_range [OF this]
  from r(1) show "0 \<le> food.protein_intensity f" "food.protein_intensity f \<le> 5" by simp_all
  from r(2) show "0 \<le> food.fat_level f" "food.fat_level f \<le> 5" by simp_all
  from r(3) show "0 \<le> food.acidity f" "food.acidity f \<le> 5" by simp_all
  from r(4) show "0 \<le> food.sweetness f" "food.sweetness f \<le> 5" by simp_all
  from r(5) show "0 \<le> food.spice_heat f" "food.spice_heat f \<le> 5" by simp_all
  from r(6) show "0 \<le> food.umami f" "food.umami f \<le> 5" by simp_all
next
  fix w
  assume n: "normalizeWine h rawWine = Inr w"
  note r = normalizeWine_range [OF n]
  from r(1) show "0 \<le> wine.body w" "wine.body w \<le> 5" by simp_all
  from r(2) show "0 \<le> wine.tannin w" "wine.tannin w \<le> 5" by simp_all
  from r(3) show "0 \<le> wine.acidity w" "wine.acidity w \<le> 5" by simp_all
  from r(4) show "0 \<le> wine.sweetness w" "wine.sweetness w \<le> 5" by simp_all
  from r(5) show "1 \<le> wine.alcohol w" "wine.alcohol w \<le> 5" by simp_all
  from r(6) show "1 \<le> wine.aromatic_intensity w" "wine.aromatic_intensity w \<le> 5"
    by simp_all
  from n obtain a b na nb where ab:
    "getProp rawWine ''alcohol'' = Inr a" "Number h a = Inr na"
    "getProp rawWine ''aromatic_intensity'' = Inr b" "Number h b = Inr nb"
    "wine.alcohol w = floorClampOr 3 1 5 na"
    "wine.aromatic_intensity w = floorClampOr 2 1 5 nb"
    by (auto simp: normalizeWine_def bindE_Inr_iff)
  have "floorClampOr 3 1 5 na = (case na of NaN \<Rightarrow> 3 | PosInf \<Rightarrow> 5 | NegInf \<Rightarrow> 1
                             | Fin q \<Rightarrow> max 1 (min 5 \<lfloor>q\<rfloor>))"
    by (cases na) simp_all
  with ab show "\<exists>a n. getProp rawWine ''alcohol'' = Inr a \<and> Number h a = Inr n \<and>
           wine.alcohol w = (case n of NaN \<Rightarrow> 3 | PosInf \<Rightarrow> 5 | NegInf \<Rightarrow> 1
                             | Fin q \<Rightarrow> max 1 (min 5 \<lfloor>q\<rfloor>))"
    by auto
  have "floorClampOr 2 1 5 nb = (case nb of NaN \<Rightarrow> 2 | PosInf \<Rightarrow> 5 | NegInf \<Rightarrow> 1
                             | Fin q \<Rightarrow> max 1 (min 5 \<lfloor>q\<rfloor>))"
    by (cases nb) simp_all
  with ab show "\<exists>a n. getProp rawWine ''aromatic_intensity'' = Inr a \<and> Number h a = Inr n \<and>
           wine.aromatic_intensity w = (case n of NaN \<Rightarrow> 2 | PosInf \<Rightarrow> 5 | NegInf \<Rightarrow> 1
                             | Fin q \<Rightarrow> max 1 (min 5 \<lfloor>q\<rfloor>))"
    by auto
qed

text \<open>The malformed samples normalize: 3.5 floors to 3, null is 0, -4 clamps to 0,
  true is 1, Infinity clamps to 5, 9 clamps to 5, and the wine's alcohol (an object)
  and aromatic intensity (missing) take their defaults.\<close>

theorem normalization_in_range_witness:
  "coercible (JNum (Fin (7 / 2))) \<and>
   Number sampleHost (JNum (Fin (7 / 2))) = Inr (Fin (7 / 2)) \<and>
   clamp sampleHost (JNum (Fin (7 / 2))) 0 5 = Inr 3 \<and>
   fieldsConvert foodFields sloppyFood \<and>
   normalizeFood sampleHost sloppyFood =
     Inr \<lparr> food.name = [], food.protein_intensity = 3, food.fat_level = 0,
           food.acidity = 0, food.sweetness = 1, food.spice_heat = 5, food.umami = 3 \<rparr> \<and>
   fieldsConvert wineFields sloppyWine \<and>
   normalizeWine sampleHost sloppyWine =
     Inr \<lparr> wine.name = [], wine.body = 5, wine.tannin = 0, wine.acidity = 3,
           wine.alcohol = 3, wine.sweetness = 0, wine.aromatic_intensity = 2,
           flavor_profile = [] \<rparr>"
proof -
  have c: "fieldsConvert foodFields sloppyFood" "fieldsConvert wineFields sloppyWine"
    by (simp_all add: fieldsConvert_def fieldConverts_def foodFields_def wineFields_def
        sample_defs)
  have k: "clamp sampleHost (JNum (Fin (7 / 2))) 0 5 = Inr 3"
    by (simp add: clamp_def floor_eq_iff)
  from normalization_in_range
         [where h = sampleHost and v = "JNum (Fin (7 / 2))" and lo = 0 and hi = 5
            and rawFood = sloppyFood and rawWine = sloppyWine]
       c k normalize_sloppyFood normalize_sloppyWine
  show ?thesis by simp
qed

text \<open>Claim C5 as written fails on an attribute that is an object with a \<^verbatim>\<open>toString\<close>
  entry: \<^verbatim>\<open>Number\<close> throws on it, so \<^verbatim>\<open>clamp\<close> does not return the minimum and the
  normalizers do not return a record.\<close>

theorem normalization_not_total:
  "clamp sampleHost boxedAttribute 0 5 = Inl TypeError \<and>
   normalizeFood sampleHost (JObj [(''umami'', boxedAttribute)]) = Inl TypeError \<and>
   normalizeWine sampleHost boxedWine = Inl TypeError"
  by (simp add: sample_defs engine_defs)

section \<open>Reasoning\<close>

text \<open>
  Claim C6. For arguments that pass the guard and normalize to \<open>f\<close> and \<open>w\<close>, the
  reasoning list of \<^verbatim>\<open>scorePairing\<close> is the reasoning of Intensity Harmony, Fat Balance,
  Acid Gap, Spice Logic, Umami Support, Flavor Bridge and the Sweetness rule, appended
  in that order; when the wine is less sweet than the dish the sweetness message is
  its last entry, whatever the score was before the cap.
\<close>

theorem reasoning_in_rule_order:
  assumes "truthy rawFood" and "truthy rawWine"
    and f: "normalizeFood h rawFood = Inr f" and w: "normalizeWine h rawWine = Inr w"
  shows "\<exists>r. scorePairing h rawFood rawWine = Inr r \<and>
           pairing_result.reasoning r =
             rule_outcome.reasoning (applyIntensityHarmony f w)
           @ rule_outcome.reasoning (applyFatBalance f w)
           @ rule_outcome.reasoning (applyAcidGap f w)
           @ rule_outcome.reasoning (applySpiceLogic f w)
           @ rule_outcome.reasoning (applyUmamiSupport f w)
           @ rule_outcome.reasoning (applyFlavorBridge f w)
           @ cap_outcome.reasoning (applySweetnessRule f w) \<and>
           (wine.sweetness w < food.sweetness f \<longrightarrow>
              pairing_result.reasoning r \<noteq> [] \<and>
              last (pairing_result.reasoning r) = ''Wine sweetness lower than dish sweetness.'')"
  using scoreOnePair_unfold [OF f w] assms(1,2)
  by (auto simp: scorePairing_def applySweetnessRule_def)

text \<open>The dessert and the dry wine: three rules bring the sum down to 5, below the
  cap, and the sweetness message still closes the list.\<close>

theorem reasoning_in_rule_order_witness:
  "truthy dessert \<and> truthy dryWine \<and>
   normalizeFood sampleHost dessert =
     Inr \<lparr> food.name = ''Creme Brulee'', food.protein_intensity = 0, food.fat_level = 4,
           food.acidity = 4, food.sweetness = 3, food.spice_heat = 0, food.umami = 0 \<rparr> \<and>
   normalizeWine sampleHost dryWine =
     Inr \<lparr> wine.name = ''Barolo'', wine.body = 5, wine.tannin = 2, wine.acidity = 1,
           wine.alcohol = 4, wine.sweetness = 1, wine.aromatic_intensity = 2,
           flavor_profile = [] \<rparr> \<and>
   (\<exists>r. scorePairing sampleHost dessert dryWine = Inr r \<and> score r = 5 \<and>
        pairing_result.reasoning r =
          [''Wine body misaligned with dish intensity.''] @
          [''Wine lacks acidity for rich texture.''] @
          [''Wine acidity too low for dish brightness.''] @ [] @ [] @ [] @
          [''Wine sweetness lower than dish sweetness.''] \<and>
        last (pairing_result.reasoning r) = ''Wine sweetness lower than dish sweetness.'')"
proof -
  have t: "truthy dessert" "truthy dryWine"
    by (simp_all add: sample_defs)
  from reasoning_in_rule_order [OF t normalize_dessert normalize_dryWine, of sampleHost]
  have "\<exists>r. scorePairing sampleHost dessert dryWine = Inr r \<and>
          last (pairing_result.reasoning r) = ''Wine sweetness lower than dish sweetness.''"
    by simp blast
  with t normalize_dessert [of sampleHost] normalize_dryWine [of sampleHost]
    dessert_dryWine [of sampleHost]
  show ?thesis by auto
qed

text \<open>
  Claim C7. The three checks of Spice Logic are independent and their deltas add up:
  the delta is the sum of the three contributions and the reasoning is the three
  messages that apply, in the order alcohol, tannin, sweetness. With spice heat at
  least 3, alcohol and tannin at least 4 and sweetness at least 1, all three fire:
  the delta is -17 and the list holds exactly the three messages.
\<close>

theorem spice_logic_accumulates:
  "delta (applySpiceLogic f w) =
       (if food.spice_heat f \<ge> 3 \<and> wine.alcohol w \<ge> 4 then - 15 else 0)
     + (if food.spice_heat f \<ge> 3 \<and> wine.tannin w \<ge> 4 then - 10 else 0)
     + (if food.spice_heat f \<ge> 3 \<and> wine.sweetness w \<ge> 1 then 8 else 0) \<and>
   rule_outcome.reasoning (applySpiceLogic f w) =
       (if food.spice_heat f \<ge> 3 \<and> wine.alcohol w \<ge> 4
        then [''High alcohol clashes with spice heat.''] else [])
     @ (if food.spice_heat f \<ge> 3 \<and> wine.tannin w \<ge> 4
        then [''Tannins amplified by spice.''] else [])
     @ (if food.spice_heat f \<ge> 3 \<and> wine.sweetness w \<ge> 1
        then [''Slight sweetness softens spice.''] else []) \<and>
   (food.spice_heat f \<ge> 3 \<and> wine.alcohol w \<ge> 4 \<and> wine.tannin w \<ge> 4 \<and> wine.sweetness w \<ge> 1
      \<longrightarrow> applySpiceLogic f w =
        \<lparr> delta = - 17,
          rule_outcome.reasoning = [''High alcohol clashes with spice heat.'',
            ''Tannins amplified by spice.'', ''Slight sweetness softens spice.''] \<rparr>)"
  by (simp add: applySpiceLogic_def Let_def)

text \<open>The curry and the strong wine, normalized.\<close>

theorem spice_logic_accumulates_witness:
  "normalizeFood sampleHost curry =
     Inr \<lparr> food.name = ''Spicy Thai Curry'', food.protein_intensity = 2, food.fat_level = 3,
           food.acidity = 2, food.sweetness = 1, food.spice_heat = 4, food.umami = 3 \<rparr> \<and>
   normalizeWine sampleHost strongWine =
     Inr \<lparr> wine.name = ''Zinfandel'', wine.body = 4, wine.tannin = 5, wine.acidity = 2,
           wine.alcohol = 5, wine.sweetness = 2, wine.aromatic_intensity = 2,
           flavor_profile = [] \<rparr> \<and>
   applySpiceLogic
     \<lparr> food.name = ''Spicy Thai Curry'', food.protein_intensity = 2, food.fat_level = 3,
       food.acidity = 2, food.sweetness = 1, food.spice_heat = 4, food.umami = 3 \<rparr>
     \<lparr> wine.name = ''Zinfandel'', wine.body = 4, wine.tannin = 5, wine.acidity = 2,
       wine.alcohol = 5, wine.sweetness = 2, wine.aromatic_intensity = 2,
       flavor_profile = [] \<rparr> =
     \<lparr> delta = - 17,
       rule_outcome.reasoning = [''High alcohol clashes with spice heat.'',
         ''Tannins amplified by spice.'', ''Slight sweetness softens spice.''] \<rparr>"
proof -
  have n: "normalizeFood sampleHost curry =
     Inr \<lparr> food.name = ''Spicy Thai Curry'', food.protein_intensity = 2, food.fat_level = 3,
           food.acidity = 2, food.sweetness = 1, food.spice_heat = 4, food.umami = 3 \<rparr>"
    "normalizeWine sampleHost strongWine =
     Inr \<lparr> wine.name = ''Zinfandel'', wine.body = 4, wine.tannin = 5, wine.acidity = 2,
           wine.alcohol = 5, wine.sweetness = 2, wine.aromatic_intensity = 2,
           flavor_profile = [] \<rparr>"
    by (simp_all add: sample_defs engine_defs)
  from spice_logic_accumulates
     [of "\<lparr> food.name = ''Spicy Thai Curry'', food.protein_intensity = 2, food.fat_level = 3,
           food.acidity = 2, food.sweetness = 1, food.spice_heat = 4, food.umami = 3 \<rparr>"
         "\<lparr> wine.name = ''Zinfandel'', wine.body = 4, wine.tannin = 5, wine.acidity = 2,
           wine.alcohol = 5, wine.sweetness = 2, wine.aromatic_intensity = 2,
           flavor_profile = [] \<rparr>"] n
  show ?thesis by simp
qed

section \<open>The name of a result\<close>

text \<open>What \<^verbatim>\<open>w.name || wine.name || ""\<close> yields: the raw name when it is a string, and
  otherwise the raw name itself when it is truthy, the empty string when it is not.\<close>

lemma name_of_result:
  assumes "truthy rawFood" and "truthy rawWine"
    and "scorePairing h rawFood rawWine = Inr r"
  shows "\<exists>nm. getProp rawWine ''name'' = Inr nm \<and>
           pairing_result.name r = (if truthy nm then nm else JStr [])"
proof -
  from assms obtain f w where f: "normalizeFood h rawFood = Inr f"
    and w: "normalizeWine h rawWine = Inr w"
    by (auto simp: scorePairing_def scoreOnePair_def bindE_Inr_iff)
  from w obtain nm where nm: "getProp rawWine ''name'' = Inr nm"
    and wn: "wine.name w = (case nm of JStr s \<Rightarrow> s | _ \<Rightarrow> [])"
    by (auto simp: normalizeWine_def bindE_Inr_iff)
  from assms f w nm wn show ?thesis
    by (cases nm) (auto simp: scorePairing_def scoreOnePair_def Let_def)
qed

text \<open>
  Claim C8. The name of a result is not always a string: a wine whose raw name is the
  number 42 normalizes to the empty display name, and the fallback then hands out the
  raw 42 itself. The function's own \<^verbatim>\<open>@returns\<close> documents \<^verbatim>\<open>name: string\<close>.
\<close>

theorem result_name_number:
  "scorePairing h (JObj []) (JObj [(''name'', JNum (Fin 42))]) =
     Inr \<lparr> pairing_result.name = JNum (Fin 42), score = 65,
           pairing_result.reasoning = [''Wine body aligns with protein intensity.''] \<rparr> \<and>
   \<not> isString (JNum (Fin 42))"
  by (simp add: engine_defs rule_defs)

text \<open>The same call on the sample host; both arguments pass the guard.\<close>

theorem result_name_number_witness:
  "truthy (JObj []) \<and> truthy (JObj [(''name'', JNum (Fin 42))]) \<and>
   scorePairing sampleHost (JObj []) (JObj [(''name'', JNum (Fin 42))]) =
     Inr \<lparr> pairing_result.name = JNum (Fin 42), score = 65,
           pairing_result.reasoning = [''Wine body aligns with protein intensity.''] \<rparr> \<and>
   \<not> isString (JNum (Fin 42))"
  using result_name_number [of sampleHost] by simp

section \<open>The two engines\<close>

text \<open>
  Claim C9. The seven-rule \<^verbatim>\<open>scorePairing\<close> and the superseded five-rule one do not
  compute the same score: there is a pair of records on which both return and the
  scores differ. The risotto and the Chablis (Umami Support fires) and the steak and
  the Malbec (Flavor Bridge fires) both score 70 against 65.
\<close>

theorem engines_disagree:
  "\<exists>rawFood rawWine r s.
     scorePairing h rawFood rawWine = Inr r \<and>
     legacy_scorePairing h rawFood rawWine = Inr s \<and> score r \<noteq> s"
proof -
  have "score \<lparr> pairing_result.name = JStr ''Chablis'', score = 70,
           pairing_result.reasoning = [''Wine body aligns with protein intensity.'',
              ''Acidity supports savory depth.''] \<rparr> \<noteq> 65"
    by simp
  with savoryFood_crispWine [of h] savoryFood_crispWine_legacy [of h]
  show ?thesis by blast
qed

text \<open>On the sample host: both pairs pass the guard, the seven-rule engine gives each
  70 and the five-rule engine 65.\<close>

theorem engines_disagree_witness:
  "truthy savoryFood \<and> truthy crispWine \<and> truthy steak \<and> truthy steakNoteWine \<and>
   scorePairing sampleHost savoryFood crispWine =
     Inr \<lparr> pairing_result.name = JStr ''Chablis'', score = 70,
           pairing_result.reasoning = [''Wine body aligns with protein intensity.'',
              ''Acidity supports savory depth.''] \<rparr> \<and>
   legacy_scorePairing sampleHost savoryFood crispWine = Inr 65 \<and>
   scorePairing sampleHost steak steakNoteWine =
     Inr \<lparr> pairing_result.name = JStr ''Malbec'', score = 70,
           pairing_result.reasoning = [''Wine body aligns with protein intensity.'',
              ''Flavor bridge between wine and dish.''] \<rparr> \<and>
   legacy_scorePairing sampleHost steak steakNoteWine = Inr 65 \<and>
   (\<exists>rawFood rawWine r s.
      scorePairing sampleHost rawFood rawWine = Inr r \<and>
      legacy_scorePairing sampleHost rawFood rawWine = Inr s \<and> score r \<noteq> s)"
proof -
  have "truthy savoryFood" "truthy crispWine" "truthy steak" "truthy steakNoteWine"
    by (simp_all add: sample_defs)
  with engines_disagree [of sampleHost] savoryFood_crispWine [of sampleHost]
    savoryFood_crispWine_legacy [of sampleHost] steak_steakNoteWine [of sampleHost]
    steak_steakNoteWine_legacy [of sampleHost]
  show ?thesis by simp
qed

section \<open>Flavor notes\<close>

text \<open>
  Claim C10. A wine whose flavor profile holds the empty string gets the Flavor Bridge
  bonus of 5 and its message with every normalized food, whatever its name, the empty
  name included: the empty string occurs in every string. The normalized profile is
  the raw array as it is, empty entries included.
\<close>

theorem empty_flavor_note_always_bridges:
  "(JStr [] \<in> set (flavor_profile w) \<longrightarrow>
      applyFlavorBridge f w =
        \<lparr> delta = 5, rule_outcome.reasoning = [''Flavor bridge between wine and dish.''] \<rparr>) \<and>
   (normalizeWine h rawWine = Inr w' \<and> getProp rawWine ''flavor_profile'' = Inr (JArr xs)
      \<longrightarrow> flavor_profile w' = xs)"
proof -
  have m: "flavorMatches s (JStr [])" for s
    by (simp add: toLowerCase_def includesStr_empty)
  have "length (flavor_profile w) > 0 \<and> list_ex (flavorMatches s) (flavor_profile w)"
    if a: "JStr [] \<in> set (flavor_profile w)" for s
  proof
    from a show "length (flavor_profile w) > 0" by (cases "flavor_profile w") simp_all
    from a m [of s] show "list_ex (flavorMatches s) (flavor_profile w)"
      unfolding list_ex_iff by (rule bexI [rotated])
  qed
  then show ?thesis
    by (auto simp: applyFlavorBridge_def Let_def normalizeWine_def bindE_Inr_iff)
qed

text \<open>The house white, whose only note is the empty string, against a food with no
  name at all.\<close>

theorem empty_flavor_note_always_bridges_witness:
  "normalizeWine sampleHost blankNoteWine =
     Inr \<lparr> wine.name = ''House White'', wine.body = 0, wine.tannin = 0, wine.acidity = 0,
           wine.alcohol = 3, wine.sweetness = 0, wine.aromatic_intensity = 2,
           flavor_profile = [JStr []] \<rparr> \<and>
   getProp blankNoteWine ''flavor_profile'' = Inr (JArr [JStr []]) \<and>
   normalizeFood sampleHost (JObj []) =
     Inr \<lparr> food.name = [], food.protein_intensity = 0, food.fat_level = 0,
           food.acidity = 0, food.sweetness = 0, food.spice_heat = 0, food.umami = 0 \<rparr> \<and>
   applyFlavorBridge
     \<lparr> food.name = [], food.protein_intensity = 0, food.fat_level = 0,
       food.acidity = 0, food.sweetness = 0, food.spice_heat = 0, food.umami = 0 \<rparr>
     \<lparr> wine.name = ''House White'', wine.body = 0, wine.tannin = 0, wine.acidity = 0,
       wine.alcohol = 3, wine.sweetness = 0, wine.aromatic_intensity = 2,
       flavor_profile = [JStr []] \<rparr> =
     \<lparr> delta = 5, rule_outcome.reasoning = [''Flavor bridge between wine and dish.''] \<rparr> \<and>
   scorePairing sampleHost (JObj []) blankNoteWine =
     Inr \<lparr> pairing_result.name = JStr ''House White'', score = 70,
           pairing_result.reasoning = [''Wine body aligns with protein intensity.'',
             ''Flavor bridge between wine and dish.''] \<rparr>"
proof -
  have g: "getProp blankNoteWine ''flavor_profile'' = Inr (JArr [JStr []])"
    by (simp add: sample_defs)
  have n: "normalizeFood sampleHost (JObj []) =
     Inr \<lparr> food.name = [], food.protein_intensity = 0, food.fat_level = 0,
           food.acidity = 0, food.sweetness = 0, food.spice_heat = 0, food.umami = 0 \<rparr>"
    by (simp add: engine_defs)
  have s: "scorePairing sampleHost (JObj []) blankNoteWine =
     Inr \<lparr> pairing_result.name = JStr ''House White'', score = 70,
           pairing_result.reasoning = [''Wine body aligns with protein intensity.'',
             ''Flavor bridge between wine and dish.''] \<rparr>"
    by (simp add: sample_defs engine_defs rule_defs)
  from empty_flavor_note_always_bridges
     [where h = sampleHost and rawWine = blankNoteWine and xs = "[JStr []]"
        and w = "\<lparr> wine.name = ''House White'', wine.body = 0, wine.tannin = 0,
           wine.acidity = 0, wine.alcohol = 3, wine.sweetness = 0,
           wine.aromatic_intensity = 2, flavor_profile = [JStr []] \<rparr>"
        and w' = "\<lparr> wine.name = ''House White'', wine.body = 0, wine.tannin = 0,
           wine.acidity = 0, wine.alcohol = 3, wine.sweetness = 0,
           wine.aromatic_intensity = 2, flavor_profile = [JStr []] \<rparr>"
        and f = "\<lparr> food.name = [], food.protein_intensity = 0, food.fat_level = 0,
           food.acidity = 0, food.sweetness = 0, food.spice_heat = 0, food.umami = 0 \<rparr>"]
    normalize_blankNoteWine [of sampleHost] g n s
  show ?thesis by simp
qed

end
